theory Spec2Isabelle
  imports Main
begin

section \<open>The language-server session manager of extension.ts\<close>

text \<open>
  The extension keeps its state in module-level variables (\<open>g_settings\<close>,
  \<open>g_languageClient\<close>, \<open>g_serverstatus\<close>) and runs on a single-threaded event loop:
  a callback or the code between two \<open>await\<close>s runs to completion, and other callbacks
  may run at every \<open>await\<close>. The model is a state machine over a record of those
  variables. Each function of the source becomes a state transformer for the part it
  runs in one turn of the loop; the suspended rest of an \<open>async\<close> function is kept in
  the state as a continuation, resumed by the event that settles the awaited promise.
  Calls into the collaborators (feature modules, the language client, the status bar
  item, message boxes) are appended to a trace in program order.
\<close>

subsection \<open>Data\<close>

text \<open>
  Modelled from the spec: the declaration of \<open>settings.ISettings\<close> is in settings.ts,
  which is not among the sources. The manager reads the field \<open>juliaExePath\<close> only; all
  other fields are opaque to it and are kept as one value. \<open>None\<close> stands for
  \<open>null\<close>/\<open>undefined\<close>, which the loose comparison \<open>!=\<close> does not tell apart.
\<close>

record ISettings =
  juliaExePath :: "string option"
  otherFields :: string

text \<open>The modules imported by extension.ts that are told of settings and clients.\<close>

datatype feature =
  Telemetry | JuliaExePath | Repl | Weave | Tasks | SmallCommands | PackagePath
  | OpenPackageDirectory

record SpawnOptions =
  cwd :: string
  env :: "(string \<times> string) list"

record Executable =
  command :: string
  args :: "string list"
  options :: SpawnOptions

record ServerOptions =
  run :: Executable
  debug :: Executable

text \<open>
  What the host process provides: \<open>g_context.extensionPath\<close>, \<open>process.pid\<close>,
  \<open>process.env.HOME\<close> (\<open>None\<close> when the variable is not set), \<open>os.homedir()\<close> and
  Node's \<open>path.join\<close>, which is taken as a parameter.
\<close>

record Host =
  extensionPath :: string
  pid :: nat
  env_HOME :: "string option"
  homedir :: string
  path_join :: "string list \<Rightarrow> string"

record StatusBarItem =
  visible :: bool
  sb_text :: string

text \<open>The two callbacks passed to \<open>onNotification\<close>: \<open>g_serverstatus.show()\<close> and
  \<open>g_serverstatus.hide()\<close>.\<close>

datatype handler = ShowStatus | HideStatus

text \<open>
  The calls the manager makes, in program order. Language clients are numbered in the
  order in which \<open>new LanguageClient\<close> creates them, launches (calls of
  \<open>startLanguageServer\<close>) in the order in which they are called. \<open>StopCompleted\<close> is
  not a call: it records that the promise returned by \<open>stop()\<close> has settled.
\<close>

datatype effect =
    CreateStatusBarItem
  | StatusShow
  | StatusHide
  | StatusSetText string
  | ActivateFeature feature ISettings
  | OnDidChangeConfiguration feature ISettings
  | OnNewLanguageClient feature "nat option"
  | ShowErrorMessage string
  | ShowInformationMessage string
  | GetPkgPath nat
  | GetJuliaExePath nat
  | NewLanguageClient nat ServerOptions
  | ClientStart nat
  | ClientStartThrew nat
  | ClientStop nat
  | OnNotification nat string
  | StopCompleted nat

text \<open>
  Where a call of \<open>startLanguageServer\<close> is suspended: at the \<open>await\<close> of line 131, or
  at the one of line 147, where the locals \<open>serverArgsRun\<close>, \<open>serverArgsDebug\<close> and
  \<open>spawnOptions\<close> are alive.
\<close>

datatype launch_state =
    AwaitPkgPath
  | AwaitJuliaExePath "string list" "string list" SpawnOptions

record Manager =
  g_settings :: ISettings
  g_languageClient :: "nat option"
  g_serverstatus :: StatusBarItem
  launches :: "(nat \<times> launch_state) list"
  readyWaiters :: "nat list"
  handlers :: "((nat \<times> string) \<times> handler) list"
  nextLaunch :: nat
  nextClient :: nat
  trace :: "effect list"

text \<open>
  What the event loop delivers. A settled promise carries \<open>Some\<close> value when it
  resolves and \<open>None\<close> when it rejects. \<open>JuliaExePathSettled\<close> also fixes whether a
  call \<open>g_languageClient.start()\<close> made in the same turn would return (\<open>True\<close>) or
  throw: the language client is a library, so its behaviour is part of the environment.
\<close>

datatype event =
    ConfigurationChanged ISettings
  | PkgPathSettled nat "string option"
  | JuliaExePathSettled nat "string option" bool
  | ReadySettled nat bool
  | Notification nat string string
  | StopSettled nat

subsection \<open>Constants of the source\<close>

definition g_serverBusyNotification :: string where
  "g_serverBusyNotification = ''window/setStatusBusy''"

definition g_serverReadyNotification :: string where
  "g_serverReadyNotification = ''window/setStatusReady''"

definition busyText :: string where
  "busyText = ''Julia Language Server is busy''"

definition startErrorMessage :: string where
  "startErrorMessage =
     ''Could not start the julia language server. Make sure the configuration setting julia.executablePath points to the julia binary.''"

definition telemetryPrompt :: string where
  "telemetryPrompt =
     ''To help improve the julia extension, you can anonymously send usage statistics to the team.''"

text \<open>The modules called by \<open>setLanguageClient\<close> and by \<open>activate\<close>, in source order,
  and those called by \<open>configChanged\<close>.\<close>

definition clientFeatures :: "feature list" where
  "clientFeatures =
     [JuliaExePath, Repl, Weave, Tasks, SmallCommands, PackagePath, OpenPackageDirectory]"

definition configFeatures :: "feature list" where
  "configFeatures = Telemetry # clientFeatures"

subsection \<open>The launch specification\<close>

text \<open>\<open>process.pid.toString()\<close>: the decimal digits of a natural number.\<close>

definition digit :: "nat \<Rightarrow> char" where
  "digit d = ''0123456789'' ! d"

fun toString :: "nat \<Rightarrow> string" where
  "toString n = (if n < 10 then [digit n] else toString (n div 10) @ [digit (n mod 10)])"

declare toString.simps [simp del]

definition serverArgsRun :: "Host \<Rightarrow> string \<Rightarrow> string list" where
  "serverArgsRun h originalJuliaPkgDir =
     [''--startup-file=no'', ''--history-file=no'', ''main.jl'', originalJuliaPkgDir,
      ''--debug=no'', toString (pid h)]"

definition serverArgsDebug :: "Host \<Rightarrow> string \<Rightarrow> string list" where
  "serverArgsDebug h originalJuliaPkgDir =
     [''--startup-file=no'', ''--history-file=no'', ''main.jl'', originalJuliaPkgDir,
      ''--debug=yes'', toString (pid h)]"

text \<open>
  \<open>process.env.HOME ? process.env.HOME : os.homedir()\<close>: an unset variable and the
  empty string are both falsy.
\<close>

definition homeOrDefault :: "Host \<Rightarrow> string" where
  "homeOrDefault h =
     (case env_HOME h of
        None \<Rightarrow> homedir h
      | Some v \<Rightarrow> if v = [] then homedir h else v)"

definition spawnOptions :: "Host \<Rightarrow> SpawnOptions" where
  "spawnOptions h =
     \<lparr>cwd = path_join h [extensionPath h, ''scripts'', ''languageserver''],
      env = [(''JULIA_PKGDIR'',
                path_join h [extensionPath h, ''scripts'', ''languageserver'', ''julia_pkgdir'']),
             (''HOME'', homeOrDefault h)]\<rparr>"

subsection \<open>The functions of the source\<close>

definition emit :: "effect list \<Rightarrow> Manager \<Rightarrow> Manager" where
  "emit es s = s\<lparr>trace := trace s @ es\<rparr>"

definition setLanguageClient :: "nat option \<Rightarrow> Manager \<Rightarrow> Manager" where
  "setLanguageClient languageClient s =
     emit (map (\<lambda>m. OnNewLanguageClient m languageClient) clientFeatures)
       (s\<lparr>g_languageClient := languageClient\<rparr>)"

text \<open>\<open>startLanguageServer\<close> up to its first \<open>await\<close> (line 131): the package path
  resolver is called and the rest of the function is suspended.\<close>

definition startLanguageServer :: "Manager \<Rightarrow> Manager" where
  "startLanguageServer s =
     emit [GetPkgPath (nextLaunch s)]
       (s\<lparr>launches := launches s @ [(nextLaunch s, AwaitPkgPath)],
          nextLaunch := Suc (nextLaunch s)\<rparr>)"

text \<open>
  \<open>configChanged\<close> (lines 99 to 125). \<open>newSettings\<close> is what \<open>settings.loadSettings()\<close>
  returns. The result of \<open>g_languageClient.stop()\<close> is dropped, and
  \<open>startLanguageServer()\<close> is not awaited. \<open>g_settings\<close> is not assigned.
\<close>

definition configChanged :: "ISettings \<Rightarrow> Manager \<Rightarrow> Manager" where
  "configChanged newSettings s =
     (let s1 = emit (map (\<lambda>m. OnDidChangeConfiguration m newSettings) configFeatures) s;
          need_to_restart_server = (juliaExePath (g_settings s1) \<noteq> juliaExePath newSettings)
      in if need_to_restart_server then
           startLanguageServer
             (case g_languageClient s1 of
                None \<Rightarrow> s1
              | Some c \<Rightarrow> setLanguageClient None (emit [ClientStop c] s1))
         else s1)"

definition dropLaunch :: "nat \<Rightarrow> Manager \<Rightarrow> Manager" where
  "dropLaunch l s = s\<lparr>launches := filter (\<lambda>(k, _). k \<noteq> l) (launches s)\<rparr>"

definition setLaunch :: "nat \<Rightarrow> launch_state \<Rightarrow> Manager \<Rightarrow> Manager" where
  "setLaunch l st s =
     s\<lparr>launches := map (\<lambda>(k, v). if k = l then (k, st) else (k, v)) (launches s)\<rparr>"

text \<open>
  Lines 131 to 147: the promise of \<open>packagepath.getPkgPath()\<close> settles for launch
  \<open>l\<close>. A rejection is caught: one error message, and the function returns. Otherwise
  the arguments and the spawn options are built and the executable path resolver is
  awaited.
\<close>

definition pkgPathSettled :: "Host \<Rightarrow> nat \<Rightarrow> string option \<Rightarrow> Manager \<Rightarrow> Manager" where
  "pkgPathSettled h l r s =
     (case map_of (launches s) l of
        Some AwaitPkgPath \<Rightarrow>
          (case r of
             None \<Rightarrow> emit [ShowErrorMessage startErrorMessage] (dropLaunch l s)
           | Some originalJuliaPkgDir \<Rightarrow>
               emit [GetJuliaExePath l]
                 (setLaunch l
                    (AwaitJuliaExePath (serverArgsRun h originalJuliaPkgDir)
                       (serverArgsDebug h originalJuliaPkgDir) (spawnOptions h)) s))
      | _ \<Rightarrow> s)"

text \<open>
  The names bound in the module: those imported by lines 4 to 21 and those declared at
  its top level. Reading a name that is bound neither there, nor as a local, nor by the
  host throws a ReferenceError.
\<close>

datatype js_error = ReferenceError string

definition moduleScope :: "string list" where
  "moduleScope =
     [''vscode'', ''fs'', ''path'', ''net'', ''os'', ''telemetry'', ''spawn'', ''ChildProcess'',
      ''LanguageClient'', ''LanguageClientOptions'', ''SettingMonitor'', ''ServerOptions'',
      ''TransportKind'', ''StreamInfo'', ''vslc'', ''rpc'', ''repl'', ''weave'', ''tasks'',
      ''settings'', ''smallcommands'', ''packagepath'', ''openpackagedirectory'',
      ''juliaexepath'',
      ''g_settings'', ''g_languageClient'', ''g_context'', ''g_serverstatus'',
      ''g_serverBusyNotification'', ''g_serverReadyNotification'',
      ''activate'', ''deactivate'', ''setLanguageClient'', ''configChanged'',
      ''startLanguageServer'']"

definition readName :: "string \<Rightarrow> js_error + unit" where
  "readName n = (if n \<in> set moduleScope then Inr () else Inl (ReferenceError n))"

text \<open>
  Lines 147 to 186: the promise of \<open>juliaexepath.getJuliaExePath()\<close> settles for
  launch \<open>l\<close>. The \<open>await\<close> is outside every \<open>try\<close>: a rejection ends the function
  with nothing shown. Otherwise \<open>serverOptions\<close> and \<open>clientOptions\<close> are built. The
  last field of \<open>clientOptions\<close> (line 160) reads \<open>RevealOutputChannelOn.never\<close>, also
  outside every \<open>try\<close>: when the name is not bound the read throws and the function ends
  there, before the constructor of line 164, with nothing shown.

  Past line 160 the client is created and assigned to \<open>g_languageClient\<close>, and
  \<open>start()\<close> is called inside \<open>try\<close>. When it throws, the \<open>catch\<close> shows the error
  message and sets \<open>g_languageClient\<close> to \<open>null\<close>; line 178 then reads
  \<open>g_languageClient.onReady\<close> on \<open>null\<close>, which throws and ends the function. When it
  returns, \<open>setLanguageClient\<close> runs and the callback of line 178 waits for
  \<open>onReady()\<close> of the client.
\<close>

definition juliaExePathSettled :: "nat \<Rightarrow> string option \<Rightarrow> bool \<Rightarrow> Manager \<Rightarrow> Manager" where
  "juliaExePathSettled l r startReturns s =
     (case map_of (launches s) l of
        Some (AwaitJuliaExePath argsRun argsDebug spawnOpts) \<Rightarrow>
          (case r of
             None \<Rightarrow> dropLaunch l s
           | Some jlexepath \<Rightarrow>
               (case readName ''RevealOutputChannelOn'' of
                  Inl e \<Rightarrow> dropLaunch l s
                | Inr _ \<Rightarrow>
                   (let c = nextClient s;
                        serverOptions =
                          \<lparr>run = \<lparr>command = jlexepath, args = argsRun, options = spawnOpts\<rparr>,
                           debug = \<lparr>command = jlexepath, args = argsDebug,
                                    options = spawnOpts\<rparr>\<rparr>;
                        s1 = emit [NewLanguageClient c serverOptions]
                               ((dropLaunch l s)\<lparr>g_languageClient := Some c,
                                                 nextClient := Suc c\<rparr>);
                        s2 = (if startReturns
                              then setLanguageClient (g_languageClient s1)
                                     (emit [ClientStart c] s1)
                              else (emit [ClientStartThrew c,
                                          ShowErrorMessage startErrorMessage] s1)
                                     \<lparr>g_languageClient := None\<rparr>)
                    in case g_languageClient s2 of
                         None \<Rightarrow> s2
                       | Some g \<Rightarrow> s2\<lparr>readyWaiters := readyWaiters s2 @ [g]\<rparr>)))
      | _ \<Rightarrow> s)"

text \<open>
  The callback of lines 178 to 186, run when \<open>onReady()\<close> of client \<open>c\<close> resolves. It
  reads \<open>g_languageClient\<close> again: the handlers are registered on the client that is
  current when the callback runs, and on \<open>null\<close> the first call throws. A later
  registration for the same client and channel replaces the earlier one. A rejection
  of \<open>onReady()\<close> has no callback.
\<close>

definition readySettled :: "nat \<Rightarrow> bool \<Rightarrow> Manager \<Rightarrow> Manager" where
  "readySettled c resolved s =
     (if c \<in> set (readyWaiters s) then
        (let s0 = s\<lparr>readyWaiters := removeAll c (readyWaiters s)\<rparr>
         in if resolved then
              (case g_languageClient s0 of
                 None \<Rightarrow> s0
               | Some g \<Rightarrow>
                   emit [OnNotification g g_serverBusyNotification,
                         OnNotification g g_serverReadyNotification]
                     (s0\<lparr>handlers := ((g, g_serverReadyNotification), HideStatus)
                                     # ((g, g_serverBusyNotification), ShowStatus)
                                     # handlers s0\<rparr>))
            else s0)
      else s)"

text \<open>A notification frame of client \<open>c\<close> on a channel: the handler registered for it,
  if any, runs. The payload is not read.\<close>

definition notification :: "nat \<Rightarrow> string \<Rightarrow> string \<Rightarrow> Manager \<Rightarrow> Manager" where
  "notification c channel payload s =
     (case map_of (handlers s) (c, channel) of
        None \<Rightarrow> s
      | Some ShowStatus \<Rightarrow>
          emit [StatusShow] (s\<lparr>g_serverstatus := (g_serverstatus s)\<lparr>visible := True\<rparr>\<rparr>)
      | Some HideStatus \<Rightarrow>
          emit [StatusHide] (s\<lparr>g_serverstatus := (g_serverstatus s)\<lparr>visible := False\<rparr>\<rparr>))"

text \<open>The promise of a \<open>stop()\<close> that was called settles. No code of the manager waits
  for it.\<close>

definition stopSettled :: "nat \<Rightarrow> Manager \<Rightarrow> Manager" where
  "stopSettled c s = (if ClientStop c \<in> set (trace s) then emit [StopCompleted c] s else s)"

text \<open>
  \<open>activate\<close> (lines 31 to 81), with the loaded settings and whether the setting
  \<open>enableTelemetry\<close> is \<open>null\<close>. Telemetry start-up, the subscription list and the
  language configuration do not touch the state modelled here.
\<close>

definition activate :: "ISettings \<Rightarrow> bool \<Rightarrow> Manager" where
  "activate loaded telemetryUnset =
     (let s0 = \<lparr>g_settings = loaded, g_languageClient = None,
                g_serverstatus = \<lparr>visible = False, sb_text = []\<rparr>,
                launches = [], readyWaiters = [], handlers = [],
                nextLaunch = 0, nextClient = 0, trace = [CreateStatusBarItem]\<rparr>;
          s1 = emit [StatusShow] (s0\<lparr>g_serverstatus := (g_serverstatus s0)\<lparr>visible := True\<rparr>\<rparr>);
          s2 = emit [StatusSetText busyText]
                 (s1\<lparr>g_serverstatus := (g_serverstatus s1)\<lparr>sb_text := busyText\<rparr>\<rparr>);
          s3 = emit (map (\<lambda>m. ActivateFeature m (g_settings s2)) clientFeatures) s2;
          s4 = startLanguageServer s3
      in emit (if telemetryUnset then [ShowInformationMessage telemetryPrompt] else []) s4)"

subsection \<open>The event loop\<close>

fun step :: "Host \<Rightarrow> event \<Rightarrow> Manager \<Rightarrow> Manager" where
  "step h (ConfigurationChanged newSettings) s = configChanged newSettings s"
| "step h (PkgPathSettled l r) s = pkgPathSettled h l r s"
| "step h (JuliaExePathSettled l r startReturns) s = juliaExePathSettled l r startReturns s"
| "step h (ReadySettled c resolved) s = readySettled c resolved s"
| "step h (Notification c channel payload) s = notification c channel payload s"
| "step h (StopSettled c) s = stopSettled c s"

fun process_events :: "Host \<Rightarrow> event list \<Rightarrow> Manager \<Rightarrow> Manager" where
  "process_events h [] s = s"
| "process_events h (e # es) s = process_events h es (step h e s)"

subsection \<open>Observations on traces\<close>

fun isErrorMessage :: "effect \<Rightarrow> bool" where
  "isErrorMessage (ShowErrorMessage _) = True"
| "isErrorMessage _ = False"

fun isConstructor :: "effect \<Rightarrow> bool" where
  "isConstructor (NewLanguageClient _ _) = True"
| "isConstructor _ = False"

fun isNewClientCall :: "effect \<Rightarrow> bool" where
  "isNewClientCall (OnNewLanguageClient _ _) = True"
| "isNewClientCall _ = False"

fun isLaunchCall :: "effect \<Rightarrow> bool" where
  "isLaunchCall (GetPkgPath _) = True"
| "isLaunchCall _ = False"






subsection \<open>The invariant of the runs\<close>


subsection \<open>Example inputs\<close>

text \<open>
  A host whose \<open>path.join\<close> puts a slash between the segments; a host on which
  \<open>HOME\<close> is set to the empty string while \<open>os.homedir()\<close> is the user profile; and
  three settings snapshots, of which \<open>settingsB2\<close> differs from \<open>settingsB\<close> in
  another field only.
\<close>

definition joinWithSlash :: "string list \<Rightarrow> string" where
  "joinWithSlash ps = foldr (\<lambda>p acc. if acc = [] then p else p @ ''/'' @ acc) ps []"

definition exampleHost :: Host where
  "exampleHost =
     \<lparr>extensionPath = ''/ext'', pid = 4242, env_HOME = Some ''/home/u'',
      homedir = ''/fallback'', path_join = joinWithSlash\<rparr>"

definition emptyHomeHost :: Host where
  "emptyHomeHost =
     \<lparr>extensionPath = ''C:/ext'', pid = 4242, env_HOME = Some [],
      homedir = ''C:/Users/u'', path_join = joinWithSlash\<rparr>"

definition settingsA :: ISettings where
  "settingsA = \<lparr>juliaExePath = Some ''A'', otherFields = ''x''\<rparr>"

definition settingsB :: ISettings where
  "settingsB = \<lparr>juliaExePath = Some ''B'', otherFields = ''x''\<rparr>"

definition settingsB2 :: ISettings where
  "settingsB2 = \<lparr>juliaExePath = Some ''B'', otherFields = ''y''\<rparr>"

section \<open>Properties\<close>

subsection \<open>The launch never reaches the constructor\<close>

text \<open>\<open>RevealOutputChannelOn\<close> is neither imported nor declared: line 160 throws.\<close>

lemma readName_RevealOutputChannelOn:
  "readName ''RevealOutputChannelOn'' = Inl (ReferenceError ''RevealOutputChannelOn'')"
  by (simp add: readName_def moduleScope_def)

lemmas manager_defs =
  activate_def emit_def startLanguageServer_def configChanged_def pkgPathSettled_def
  juliaExePathSettled_def readName_RevealOutputChannelOn readySettled_def notification_def
  stopSettled_def setLaunch_def dropLaunch_def setLanguageClient_def clientFeatures_def
  configFeatures_def Let_def















subsection \<open>Activation\<close>

text \<open>
  C10. \<open>activate\<close> creates the status bar item, shows it and sets its text to the busy
  text before it calls \<open>startLanguageServer\<close>. When \<open>activate\<close> returns, the item is
  visible with the busy text, no client exists, no client has been constructed and no
  notification handler is registered.
\<close>

theorem activate_status_busy:
  "g_languageClient (activate st tu) = None \<and>
   handlers (activate st tu) = [] \<and>
   visible (g_serverstatus (activate st tu)) \<and>
   sb_text (g_serverstatus (activate st tu)) = busyText \<and>
   filter isConstructor (trace (activate st tu)) = [] \<and>
   (\<exists>rest. trace (activate st tu) =
      [CreateStatusBarItem, StatusShow, StatusSetText busyText] @
      map (\<lambda>m. ActivateFeature m st) clientFeatures @ [GetPkgPath 0] @ rest)"
  by (simp add: manager_defs)

subsection \<open>A launch whose resolvers resolve\<close>

text \<open>
  C8. After activation, let the package path and the executable path resolve, and let
  the events of a handshake, a busy frame and a ready frame follow. The launch ends at
  line 160: no client is constructed or current, no feature module receives an
  \<open>onNewLanguageClient\<close> call, no handler is registered, no error message is shown,
  and the status item is still visible with the busy text after the ready frame.
\<close>

theorem resolved_launch_reaches_no_client:
  "g_languageClient (process_events h
      [PkgPathSettled 0 (Some dir), JuliaExePathSettled 0 (Some exe) True, ReadySettled 0 True,
       Notification 0 g_serverBusyNotification p1, Notification 0 g_serverReadyNotification p2]
      (activate st tu)) = None \<and>
   filter isConstructor (trace (process_events h
      [PkgPathSettled 0 (Some dir), JuliaExePathSettled 0 (Some exe) True, ReadySettled 0 True,
       Notification 0 g_serverBusyNotification p1, Notification 0 g_serverReadyNotification p2]
      (activate st tu))) = [] \<and>
   filter isNewClientCall (trace (process_events h
      [PkgPathSettled 0 (Some dir), JuliaExePathSettled 0 (Some exe) True, ReadySettled 0 True,
       Notification 0 g_serverBusyNotification p1, Notification 0 g_serverReadyNotification p2]
      (activate st tu))) = [] \<and>
   filter isErrorMessage (trace (process_events h
      [PkgPathSettled 0 (Some dir), JuliaExePathSettled 0 (Some exe) True, ReadySettled 0 True,
       Notification 0 g_serverBusyNotification p1, Notification 0 g_serverReadyNotification p2]
      (activate st tu))) = [] \<and>
   handlers (process_events h
      [PkgPathSettled 0 (Some dir), JuliaExePathSettled 0 (Some exe) True, ReadySettled 0 True,
       Notification 0 g_serverBusyNotification p1, Notification 0 g_serverReadyNotification p2]
      (activate st tu)) = [] \<and>
   g_serverstatus (process_events h
      [PkgPathSettled 0 (Some dir), JuliaExePathSettled 0 (Some exe) True, ReadySettled 0 True,
       Notification 0 g_serverBusyNotification p1, Notification 0 g_serverReadyNotification p2]
      (activate st tu)) = \<lparr>visible = True, sb_text = busyText\<rparr>"
  by (simp add: manager_defs)

subsection \<open>Failures of a launch\<close>

text \<open>A rejected package path is caught: one error message, no client, no launch left.\<close>

lemma pkg_path_rejection_shows_one_error:
  "filter isErrorMessage (trace (process_events h [PkgPathSettled 0 None] (activate st tu)))
     = [ShowErrorMessage startErrorMessage] \<and>
   filter isConstructor (trace (process_events h [PkgPathSettled 0 None] (activate st tu))) = [] \<and>
   launches (process_events h [PkgPathSettled 0 None] (activate st tu)) = []"
  by (simp add: manager_defs)

text \<open>
  C5. When the package path resolves and the executable path resolver rejects, no client
  is constructed and the launch is over, but no error message is shown: the \<open>await\<close>
  of line 147 is outside the \<open>try\<close> that guards the one of line 131.
\<close>

theorem exe_path_rejection_shows_nothing:
  "filter isErrorMessage (trace (process_events h
      [PkgPathSettled 0 (Some dir), JuliaExePathSettled 0 None b] (activate st tu))) = [] \<and>
   filter isConstructor (trace (process_events h
      [PkgPathSettled 0 (Some dir), JuliaExePathSettled 0 None b] (activate st tu))) = [] \<and>
   launches (process_events h
      [PkgPathSettled 0 (Some dir), JuliaExePathSettled 0 None b] (activate st tu)) = []"
  by (simp add: manager_defs)

text \<open>
  C9. A failed resolution of the executable path is silent in every state: the event
  adds no call to the trace, so no error message is shown. After activation it leaves
  the manager without a launch and without a client, and the only launch ever begun is
  that of the activation: nothing is retried.
\<close>

theorem exe_path_rejection_is_silent:
  "trace (step h (JuliaExePathSettled l None b) s) = trace s \<and>
   launches (process_events h
      [PkgPathSettled 0 (Some dir), JuliaExePathSettled 0 None b] (activate st tu)) = [] \<and>
   g_languageClient (process_events h
      [PkgPathSettled 0 (Some dir), JuliaExePathSettled 0 None b] (activate st tu)) = None \<and>
   filter isLaunchCall (trace (process_events h
      [PkgPathSettled 0 (Some dir), JuliaExePathSettled 0 None b] (activate st tu)))
     = [GetPkgPath 0]"
proof -
  have "trace (juliaExePathSettled l None b s) = trace s"
    by (simp add: juliaExePathSettled_def dropLaunch_def
        split: option.splits launch_state.splits)
  then show ?thesis
    by (simp add: manager_defs)
qed

subsection \<open>Notification channels\<close>

text \<open>C7, as the claim states it: the channels are not named status/busy and
  status/ready.\<close>

theorem channel_names_counterexample:
  "\<not> (g_serverBusyNotification = ''status/busy'' \<and>
      g_serverReadyNotification = ''status/ready'')"
  by (simp add: g_serverBusyNotification_def)

text \<open>
  C7, amended. The two channels are named window/setStatusBusy and
  window/setStatusReady, and these are the names under which the callback of
  \<open>onReady()\<close> (lines 178 to 186), run with a current client \<open>g\<close>, registers the show
  and the hide handler on that client.
\<close>

theorem channel_names:
  "g_serverBusyNotification = ''window/setStatusBusy'' \<and>
   g_serverReadyNotification = ''window/setStatusReady'' \<and>
   handlers (readySettled c True (s\<lparr>g_languageClient := Some g, readyWaiters := [c]\<rparr>)) =
     ((g, ''window/setStatusReady''), HideStatus) #
     ((g, ''window/setStatusBusy''), ShowStatus) # handlers s \<and>
   trace (readySettled c True (s\<lparr>g_languageClient := Some g, readyWaiters := [c]\<rparr>)) =
     trace s @ [OnNotification g ''window/setStatusBusy'',
                OnNotification g ''window/setStatusReady'']"
  by (simp add: readySettled_def emit_def g_serverBusyNotification_def
      g_serverReadyNotification_def)

subsection \<open>The restart decision\<close>

text \<open>\<open>g_settings\<close> is assigned by \<open>activate\<close> only: no event changes it.\<close>

lemma step_g_settings: "g_settings (step h e s) = g_settings s"
  by (cases e)
    (auto simp: manager_defs split: option.splits launch_state.splits handler.splits)

lemma process_events_g_settings: "g_settings (process_events h es s) = g_settings s"
  by (induction es arbitrary: s) (simp_all add: step_g_settings)

text \<open>Every configuration change is forwarded to the feature modules first, and a change
  whose executable path equals that of \<open>g_settings\<close> does nothing else.\<close>

lemma configChanged_forwards_first:
  "\<exists>rest. trace (configChanged newSettings s) =
     trace s @ map (\<lambda>m. OnDidChangeConfiguration m newSettings) configFeatures @ rest"
  by (cases "g_languageClient s")
    (simp_all add: configChanged_def emit_def startLanguageServer_def setLanguageClient_def
      Let_def)

lemma configChanged_same_path:
  "juliaExePath (g_settings s) = juliaExePath newSettings \<Longrightarrow>
   configChanged newSettings s =
     emit (map (\<lambda>m. OnDidChangeConfiguration m newSettings) configFeatures) s"
  by (simp add: configChanged_def emit_def Let_def)

text \<open>
  C1. After activation with \<open>settingsA\<close> and a change to \<open>settingsB\<close>, which begins a
  second launch, \<open>g_settings\<close> still holds \<open>settingsA\<close>. A change to \<open>settingsB2\<close>,
  which has the executable path of \<open>settingsB\<close>, is forwarded to the feature modules
  and then begins a third launch.
\<close>

theorem unchanged_path_relaunches:
  "g_settings (process_events exampleHost [ConfigurationChanged settingsB]
      (activate settingsA False)) = settingsA \<and>
   juliaExePath settingsB2 = juliaExePath settingsB \<and>
   trace (process_events exampleHost
      [ConfigurationChanged settingsB, ConfigurationChanged settingsB2]
      (activate settingsA False)) =
     trace (process_events exampleHost [ConfigurationChanged settingsB]
        (activate settingsA False)) @
     map (\<lambda>m. OnDidChangeConfiguration m settingsB2) configFeatures @ [GetPkgPath 2] \<and>
   launches (process_events exampleHost
      [ConfigurationChanged settingsB, ConfigurationChanged settingsB2]
      (activate settingsA False)) =
     [(0, AwaitPkgPath), (1, AwaitPkgPath), (2, AwaitPkgPath)]"
  by (simp add: manager_defs settingsA_def settingsB_def settingsB2_def)

subsection \<open>What a launch builds\<close>

lemma map_of_setLaunch_same:
  "map_of xs l = Some v \<Longrightarrow>
   map_of (map (\<lambda>(k, v). if k = l then (k, st) else (k, v)) xs) l = Some st"
  by (induction xs) (auto split: if_splits)

text \<open>
  C6, as the claim states it: with \<open>HOME\<close> set to the empty string the variable is
  present, but the spawn environment gets the fallback home directory.
\<close>

theorem home_when_present_counterexample:
  "env_HOME emptyHomeHost = Some [] \<and>
   map_of (env (spawnOptions emptyHomeHost)) ''HOME'' \<noteq> env_HOME emptyHomeHost"
  by (simp add: emptyHomeHost_def spawnOptions_def homeOrDefault_def)

text \<open>
  C6, amended. For a launch that waits for its package path, once that path has
  resolved the launch holds, for the run and the debug mode, the arguments
  \<open>--startup-file=no\<close>, \<open>--history-file=no\<close>, \<open>main.jl\<close>, the package directory,
  \<open>--debug=no\<close> or \<open>--debug=yes\<close> and the process id in decimal, in this order, and
  spawn options with the language server directory as working directory and an
  environment with \<open>JULIA_PKGDIR\<close> set to the directory \<open>julia_pkgdir\<close> below it and
  \<open>HOME\<close> set to the ambient value when that is set and not empty, to the fallback
  otherwise. The launch then asks for the executable path.
\<close>

theorem launch_specification:
  assumes "map_of (launches s) l = Some AwaitPkgPath"
  shows
    "map_of (launches (step h (PkgPathSettled l (Some dir)) s)) l =
       Some (AwaitJuliaExePath
         [''--startup-file=no'', ''--history-file=no'', ''main.jl'', dir, ''--debug=no'',
          toString (pid h)]
         [''--startup-file=no'', ''--history-file=no'', ''main.jl'', dir, ''--debug=yes'',
          toString (pid h)]
         \<lparr>cwd = path_join h [extensionPath h, ''scripts'', ''languageserver''],
          env = [(''JULIA_PKGDIR'',
                    path_join h [extensionPath h, ''scripts'', ''languageserver'',
                                 ''julia_pkgdir'']),
                 (''HOME'',
                    case env_HOME h of
                      None \<Rightarrow> homedir h
                    | Some v \<Rightarrow> if v = [] then homedir h else v)]\<rparr>) \<and>
     trace (step h (PkgPathSettled l (Some dir)) s) = trace s @ [GetJuliaExePath l]"
  using assms
  by (simp add: pkgPathSettled_def emit_def setLaunch_def map_of_setLaunch_same
      serverArgsRun_def serverArgsDebug_def spawnOptions_def homeOrDefault_def)

lemma toString_example: "toString 4242 = ''4242''"
  by (simp add: toString.simps digit_def)

text \<open>The launch of the activation on the example host.\<close>

theorem launch_specification_witness:
  "map_of (launches (activate settingsA False)) 0 = Some AwaitPkgPath \<and>
   map_of (launches (step exampleHost (PkgPathSettled 0 (Some ''/pkg''))
      (activate settingsA False))) 0 =
     Some (AwaitJuliaExePath
       [''--startup-file=no'', ''--history-file=no'', ''main.jl'', ''/pkg'', ''--debug=no'',
        ''4242'']
       [''--startup-file=no'', ''--history-file=no'', ''main.jl'', ''/pkg'', ''--debug=yes'',
        ''4242'']
       \<lparr>cwd = ''/ext/scripts/languageserver'',
        env = [(''JULIA_PKGDIR'', ''/ext/scripts/languageserver/julia_pkgdir''),
               (''HOME'', ''/home/u'')]\<rparr>) \<and>
   trace (step exampleHost (PkgPathSettled 0 (Some ''/pkg'')) (activate settingsA False)) =
     trace (activate settingsA False) @ [GetJuliaExePath 0]"
proof -
  have pending: "map_of (launches (activate settingsA False)) 0 = Some AwaitPkgPath"
    by (simp add: manager_defs)
  have host: "extensionPath exampleHost = ''/ext''" "pid exampleHost = 4242"
    "env_HOME exampleHost = Some ''/home/u''"
    "path_join exampleHost [''/ext'', ''scripts'', ''languageserver'']
       = ''/ext/scripts/languageserver''"
    "path_join exampleHost [''/ext'', ''scripts'', ''languageserver'', ''julia_pkgdir'']
       = ''/ext/scripts/languageserver/julia_pkgdir''"
    by (simp_all add: exampleHost_def joinWithSlash_def)
  show ?thesis
    using pending launch_specification [OF pending, of exampleHost "''/pkg''"]
    by (simp add: host toString_example)
qed

subsection \<open>Stopping before starting\<close>


subsection \<open>Live handles\<close>


subsection \<open>Notifications\<close>


end
